theory Spec2Isabelle
  imports Main "HOL-Library.Word" "HOL-Library.Sublist"
begin

unbundle bit_operations_syntax

section \<open>The appended-block container of package build\<close>

text \<open>
  The two files of package \<open>build\<close> that pack gzip-compressed, named blocks onto the end
  of a file (\<open>BinAppender\<close>) and read them back (\<open>BinAppendExtractor\<close>,
  \<open>BinAppendReader\<close>) are embedded here. The file system is an explicit value that every
  operation takes and returns. The mutex of \<open>BinAppender\<close> has no counterpart: the model
  is sequential, so \<open>Lock\<close> and \<open>Unlock\<close> are no-ops.
\<close>

subsection \<open>Bytes, errors and results\<close>

type_synonym byte = "8 word"
type_synonym bytes = "byte list"

text \<open>
  Go's \<open>error\<close> values. The first five come from package \<open>os\<close> and \<open>io\<close>, the next two
  from \<open>compress/gzip\<close> and \<open>encoding/json\<close>; the others are the messages the two files
  build themselves with \<open>errors.New\<close>, \<open>errors.Errorf\<close> and \<open>errors.Wrap\<close>.
\<close>

datatype error =
    ENOENT string
  | EINVAL
  | ErrClosed
  | ErrInvalid
  | EOF
  | GzipError
  | JsonError
  | AlreadyAdded string
  | CouldNotFindName string
  | ShortPointerRead nat
  | VersionMismatch string string string
  | Wrap error string

text \<open>
  A call either returns or panics. \<open>ByteArray\<close> is the one function here with a deferred
  call that can dereference a nil pointer.
\<close>

datatype 'a outcome = Returned 'a | Panicked

subsection \<open>The file system\<close>

text \<open>
  A \<open>*os.File\<close> is the index of a file object in \<open>objs\<close>; objects are never reused, as
  Go allocates a new \<open>os.File\<close> at each open. The nil pointer is \<open>None\<close> of
  \<open>nat option\<close>. A file object that is not closed holds an operating-system handle.
\<close>

record file_obj =
  f_path :: string
  f_off :: nat
  f_closed :: bool

record world =
  files :: "string \<rightharpoonup> bytes"
  objs :: "file_obj list"

datatype whence = SeekStart | SeekEnd

definition live :: "world \<Rightarrow> nat \<Rightarrow> (file_obj \<times> bytes) option" where
  "live w h =
     (if h < length (objs w) \<and> \<not> f_closed (objs w ! h)
      then (case files w (f_path (objs w ! h)) of
              None \<Rightarrow> None
            | Some bs \<Rightarrow> Some (objs w ! h, bs))
      else None)"

definition os_Open :: "string \<Rightarrow> world \<Rightarrow> (error + nat) \<times> world" where
  "os_Open path w =
     (case files w path of
        None \<Rightarrow> (Inl (ENOENT path), w)
      | Some bs \<Rightarrow>
          (Inr (length (objs w)),
           w\<lparr>objs := objs w @ [\<lparr>f_path = path, f_off = 0, f_closed = False\<rparr>]\<rparr>))"

definition os_Close :: "nat option \<Rightarrow> world \<Rightarrow> error option \<times> world" where
  "os_Close fh w =
     (case fh of
        None \<Rightarrow> (Some ErrInvalid, w)
      | Some h \<Rightarrow>
          if h < length (objs w) \<and> \<not> f_closed (objs w ! h)
          then (None, w\<lparr>objs := (objs w)[h := (objs w ! h)\<lparr>f_closed := True\<rparr>]\<rparr>)
          else (Some ErrClosed, w))"

definition Seek :: "nat \<Rightarrow> int \<Rightarrow> whence \<Rightarrow> world \<Rightarrow> (error + int) \<times> world" where
  "Seek h offset wh w =
     (case live w h of
        None \<Rightarrow> (Inl ErrClosed, w)
      | Some (f, bs) \<Rightarrow>
          (let pos = (case wh of SeekStart \<Rightarrow> offset | SeekEnd \<Rightarrow> int (length bs) + offset)
           in if pos < 0 then (Inl EINVAL, w)
              else (Inr pos, w\<lparr>objs := (objs w)[h := f\<lparr>f_off := nat pos\<rparr>]\<rparr>)))"

definition Read :: "nat \<Rightarrow> nat \<Rightarrow> world \<Rightarrow> (error + bytes) \<times> world" where
  "Read h n w =
     (case live w h of
        None \<Rightarrow> (Inl ErrClosed, w)
      | Some (f, bs) \<Rightarrow>
          (let p = take n (drop (f_off f) bs)
           in if p = [] \<and> 0 < n then (Inl EOF, w)
              else (Inr p, w\<lparr>objs := (objs w)[h := f\<lparr>f_off := f_off f + length p\<rparr>]\<rparr>)))"

definition Write :: "nat \<Rightarrow> bytes \<Rightarrow> world \<Rightarrow> (error + nat) \<times> world" where
  "Write h p w =
     (case live w h of
        None \<Rightarrow> (Inl ErrClosed, w)
      | Some (f, bs) \<Rightarrow>
          (let bs' = take (f_off f) bs @ replicate (f_off f - length bs) 0 @ p
                       @ drop (f_off f + length p) bs
           in (Inr (length p),
               w\<lparr>files := (files w)(f_path f \<mapsto> bs'),
                 objs := (objs w)[h := f\<lparr>f_off := f_off f + length p\<rparr>]\<rparr>)))"

text \<open>
  An \<open>io.Reader\<close> handed to the appender: bytes held in memory, or an open file read from
  its current offset. \<open>read_to_EOF\<close> is what \<open>io.Copy\<close> pulls out of it.
\<close>

datatype io_Reader = BytesReader bytes | FileReader nat

definition read_to_EOF :: "io_Reader \<Rightarrow> world \<Rightarrow> (error + bytes) \<times> world" where
  "read_to_EOF src w =
     (case src of
        BytesReader b \<Rightarrow> (Inr b, w)
      | FileReader h \<Rightarrow>
          (case live w h of
             None \<Rightarrow> (Inl ErrClosed, w)
           | Some (f, bs) \<Rightarrow>
               (Inr (drop (f_off f) bs),
                w\<lparr>objs := (objs w)[h := f\<lparr>f_off := max (f_off f) (length bs)\<rparr>]\<rparr>)))"

subsection \<open>encoding/binary\<close>

definition PutUint64 :: "64 word \<Rightarrow> bytes" where
  "PutUint64 v =
     [ucast v, ucast (drop_bit 8 v), ucast (drop_bit 16 v), ucast (drop_bit 24 v),
      ucast (drop_bit 32 v), ucast (drop_bit 40 v), ucast (drop_bit 48 v),
      ucast (drop_bit 56 v)]"

definition Uint64 :: "bytes \<Rightarrow> 64 word" where
  "Uint64 b =
     ucast (b ! 0) OR push_bit 8 (ucast (b ! 1)) OR push_bit 16 (ucast (b ! 2))
       OR push_bit 24 (ucast (b ! 3)) OR push_bit 32 (ucast (b ! 4))
       OR push_bit 40 (ucast (b ! 5)) OR push_bit 48 (ucast (b ! 6))
       OR push_bit 56 (ucast (b ! 7))"

subsection \<open>The index\<close>

record appendedData =
  StartFilePtr :: int
  ZippedSize :: int

definition METADATA_VERSION :: string where
  "METADATA_VERSION = ''0.1''"

record appendedMetadata =
  Version :: string
  Data :: "string \<rightharpoonup> appendedData"

subsection \<open>compress/gzip and encoding/json\<close>

text \<open>
  The two libraries are parameters of the model.
  \<open>gzip_compress\<close> is everything a \<open>gzip.Writer\<close> has written once it is closed;
  \<open>gzip_header_ok\<close> says whether \<open>gzip.NewReader\<close> accepts a stream;
  \<open>gzip_inflate\<close> is what \<open>ioutil.ReadAll\<close> gets out of the \<open>gzip.Reader\<close>, \<open>None\<close> when
  the stream is corrupt. \<open>json_Marshal\<close> is \<open>json.Marshal\<close> on the index, and
  \<open>json_Decode\<close> is \<open>Decoder.Decode\<close> on the bytes that follow the read position.
\<close>

record codec =
  gzip_compress :: "bytes \<Rightarrow> bytes"
  gzip_header_ok :: "bytes \<Rightarrow> bool"
  gzip_inflate :: "bytes \<Rightarrow> bytes option"
  json_Marshal :: "appendedMetadata \<Rightarrow> bytes option"
  json_Decode :: "bytes \<Rightarrow> appendedMetadata option"

subsection \<open>BinAppender\<close>

record BinAppender =
  app_fileHandle :: nat
  app_metadata :: appendedMetadata

definition MakeAppender :: "string \<Rightarrow> world \<Rightarrow> (error + BinAppender) \<times> world" where
  "MakeAppender filename w =
     (case os_Open filename w of
        (Inl err, w1) \<Rightarrow> (Inl err, w1)
      | (Inr fh, w1) \<Rightarrow>
          (Inr \<lparr>app_fileHandle = fh,
                app_metadata = \<lparr>Version = METADATA_VERSION, Data = Map.empty\<rparr>\<rparr>, w1))"

text \<open>
  \<open>AppendStreamReader\<close> seeks to the end, copies the source through a \<open>gzip.Writer\<close> on
  the appender's handle, closes the writer and seeks to the end again. \<open>io.Copy\<close> reads
  first: a source that cannot be read makes it return the error with nothing written.
  Otherwise everything the writer puts out, up to and including \<open>gzWriter.Close()\<close>, goes
  to the handle at its offset; the model does it in one \<open>Write\<close>.
\<close>

definition AppendStreamReader ::
  "codec \<Rightarrow> string \<Rightarrow> io_Reader \<Rightarrow> BinAppender \<Rightarrow> world \<Rightarrow> error option \<times> BinAppender \<times> world"
where
  "AppendStreamReader c name source appender w =
     (case Seek (app_fileHandle appender) 0 SeekEnd w of
        (Inl err, w1) \<Rightarrow> (Some err, appender, w1)
      | (Inr startPtr, w1) \<Rightarrow>
          (case read_to_EOF source w1 of
             (Inl err, w2) \<Rightarrow> (Some err, appender, w2)
           | (Inr data, w2) \<Rightarrow>
               (case Write (app_fileHandle appender) (gzip_compress c data) w2 of
                  (Inl err, w3) \<Rightarrow> (Some err, appender, w3)
                | (Inr n, w3) \<Rightarrow>
                    (case Seek (app_fileHandle appender) 0 SeekEnd w3 of
                       (Inl err, w4) \<Rightarrow> (Some err, appender, w4)
                     | (Inr endPtr, w4) \<Rightarrow>
                         (let fileMetadata =
                                \<lparr>StartFilePtr = startPtr, ZippedSize = endPtr - startPtr\<rparr>
                          in (None,
                              appender\<lparr>app_metadata := (app_metadata appender)
                                 \<lparr>Data := (Data (app_metadata appender))(name \<mapsto> fileMetadata)\<rparr>\<rparr>,
                              w4))))))"

text \<open>
  \<open>AppendFile\<close> opens the source, looks its argument up in the index, and appends the
  open file under that same argument.
\<close>

definition AppendFile ::
  "codec \<Rightarrow> string \<Rightarrow> BinAppender \<Rightarrow> world \<Rightarrow> error option \<times> BinAppender \<times> world"
where
  "AppendFile c source appender w =
     (case os_Open source w of
        (Inl err, w1) \<Rightarrow> (Some err, appender, w1)
      | (Inr sourceHandle, w1) \<Rightarrow>
          (case Data (app_metadata appender) source of
             Some d \<Rightarrow> (Some (AlreadyAdded source), appender, w1)
           | None \<Rightarrow>
               (case AppendStreamReader c source (FileReader sourceHandle) appender w1 of
                  (Some err, appender', w2) \<Rightarrow> (Some err, appender', w2)
                | (None, appender', w2) \<Rightarrow>
                    (case os_Close (Some sourceHandle) w2 of
                       (r, w3) \<Rightarrow> (r, appender', w3)))))"

definition BinAppender_Close :: "codec \<Rightarrow> BinAppender \<Rightarrow> world \<Rightarrow> error option \<times> world" where
  "BinAppender_Close c appender w =
     (case Seek (app_fileHandle appender) 0 SeekEnd w of
        (Inl err, w1) \<Rightarrow> (Some err, w1)
      | (Inr jsonPtr, w1) \<Rightarrow>
          (let jsonPtrBytes = PutUint64 (word_of_int jsonPtr)
           in case json_Marshal c (app_metadata appender) of
                None \<Rightarrow> (Some JsonError, w1)
              | Some jsonBytes \<Rightarrow>
                  (case Write (app_fileHandle appender) jsonBytes w1 of
                     (Inl err, w2) \<Rightarrow> (Some err, w2)
                   | (Inr n, w2) \<Rightarrow>
                       (case Write (app_fileHandle appender) jsonPtrBytes w2 of
                          (Inl err, w3) \<Rightarrow> (Some err, w3)
                        | (Inr m, w3) \<Rightarrow> os_Close (Some (app_fileHandle appender)) w3))))"

subsection \<open>BinAppendExtractor and BinAppendReader\<close>

record BinAppendExtractor =
  ext_filename :: string
  ext_metadata :: appendedMetadata

text \<open>
  A \<open>gzip.Reader\<close> over \<open>io.LimitReader(fileHandle, n)\<close>: the stream it decompresses is
  the at most \<open>n\<close> bytes of the file from the offset the handle had when the reader was
  made.
\<close>

record gzip_Reader =
  gz_file :: nat
  gz_start :: nat
  gz_limit :: int

record BinAppendReader =
  rd_fileHandle :: nat
  rd_gzReader :: gzip_Reader

definition limited :: "nat \<Rightarrow> int \<Rightarrow> bytes \<Rightarrow> bytes" where
  "limited start n bs = take (nat n) (drop start bs)"

definition gzip_NewReader :: "codec \<Rightarrow> nat \<Rightarrow> int \<Rightarrow> world \<Rightarrow> (error + gzip_Reader) \<times> world" where
  "gzip_NewReader c h n w =
     (case live w h of
        None \<Rightarrow> (Inl ErrClosed, w)
      | Some (f, bs) \<Rightarrow>
          if gzip_header_ok c (limited (f_off f) n bs)
          then (Inr \<lparr>gz_file = h, gz_start = f_off f, gz_limit = n\<rparr>, w)
          else (Inl GzipError, w))"

definition ioutil_ReadAll :: "codec \<Rightarrow> BinAppendReader \<Rightarrow> world \<Rightarrow> (error + bytes) \<times> world" where
  "ioutil_ReadAll c reader w =
     (case live w (gz_file (rd_gzReader reader)) of
        None \<Rightarrow> (Inl ErrClosed, w)
      | Some (f, bs) \<Rightarrow>
          (case gzip_inflate c
                  (limited (gz_start (rd_gzReader reader)) (gz_limit (rd_gzReader reader)) bs) of
             None \<Rightarrow> (Inl GzipError, w)
           | Some data \<Rightarrow> (Inr data, w)))"

definition BinAppendReader_Close :: "BinAppendReader \<Rightarrow> world \<Rightarrow> error option \<times> world" where
  "BinAppendReader_Close reader w = os_Close (Some (rd_fileHandle reader)) w"

definition json_Decoder_Decode :: "codec \<Rightarrow> nat \<Rightarrow> world \<Rightarrow> (error + appendedMetadata) \<times> world" where
  "json_Decoder_Decode c h w =
     (case live w h of
        None \<Rightarrow> (Inl ErrClosed, w)
      | Some (f, bs) \<Rightarrow>
          (case json_Decode c (drop (f_off f) bs) of
             None \<Rightarrow> (Inl JsonError, w)
           | Some md \<Rightarrow> (Inr md, w)))"

text \<open>Every error branch of \<open>MakeAppendExtractor\<close> closes the handle, then returns.\<close>

definition close_and_fail :: "nat option \<Rightarrow> error \<Rightarrow> world \<Rightarrow> (error + BinAppendExtractor) \<times> world" where
  "close_and_fail fh err w = (case os_Close fh w of (r, w') \<Rightarrow> (Inl err, w'))"

definition MakeAppendExtractor ::
  "codec \<Rightarrow> string \<Rightarrow> world \<Rightarrow> (error + BinAppendExtractor) \<times> world"
where
  "MakeAppendExtractor c filename w =
     (case os_Open filename w of
        (Inl err, w1) \<Rightarrow> close_and_fail None (Wrap err ''Open file'') w1
      | (Inr fileHandle, w1) \<Rightarrow>
          (case Seek fileHandle (- 8) SeekEnd w1 of
             (Inl err, w2) \<Rightarrow> close_and_fail (Some fileHandle) (Wrap err ''Seek in file'') w2
           | (Inr pos, w2) \<Rightarrow>
               (case Read fileHandle 8 w2 of
                  (Inl err, w3) \<Rightarrow>
                    close_and_fail (Some fileHandle) (Wrap err ''Read metadata pointer'') w3
                | (Inr metadataPtrBytes, w3) \<Rightarrow>
                    if length metadataPtrBytes \<noteq> 8
                    then close_and_fail (Some fileHandle)
                           (ShortPointerRead (length metadataPtrBytes)) w3
                    else
                      (let metadataPtr = sint (Uint64 metadataPtrBytes)
                       in case Seek fileHandle metadataPtr SeekStart w3 of
                            (Inl err, w4) \<Rightarrow>
                              close_and_fail (Some fileHandle) (Wrap err ''Seek in file'') w4
                          | (Inr pos', w4) \<Rightarrow>
                              (case json_Decoder_Decode c fileHandle w4 of
                                 (Inl err, w5) \<Rightarrow>
                                   close_and_fail (Some fileHandle) (Wrap err ''Json Decode'') w5
                               | (Inr md, w5) \<Rightarrow>
                                   if Version md \<noteq> METADATA_VERSION
                                   then close_and_fail (Some fileHandle)
                                          (VersionMismatch METADATA_VERSION (Version md) filename)
                                          w5
                                   else
                                     (case os_Close (Some fileHandle) w5 of
                                        (Some err, w6) \<Rightarrow> (Inl (Wrap err ''Closing''), w6)
                                      | (None, w6) \<Rightarrow>
                                          (Inr \<lparr>ext_filename = filename, ext_metadata = md\<rparr>,
                                           w6)))))))"

definition GetReader ::
  "codec \<Rightarrow> BinAppendExtractor \<Rightarrow> string \<Rightarrow> world \<Rightarrow> (error + BinAppendReader) \<times> world"
where
  "GetReader c extractor dataName w =
     (case Data (ext_metadata extractor) dataName of
        None \<Rightarrow> (Inl (CouldNotFindName dataName), w)
      | Some d \<Rightarrow>
          (case os_Open (ext_filename extractor) w of
             (Inl err, w1) \<Rightarrow> (Inl (Wrap err ''opening reader filehandle''), w1)
           | (Inr fh, w1) \<Rightarrow>
               (case Seek fh (StartFilePtr d) SeekStart w1 of
                  (Inl err, w2) \<Rightarrow> (Inl (Wrap err ''seeking in file''), w2)
                | (Inr pos, w2) \<Rightarrow>
                    (case gzip_NewReader c fh (ZippedSize d) w2 of
                       (Inl err, w3) \<Rightarrow> (Inl (Wrap err ''creating gzip reader''), w3)
                     | (Inr gz, w3) \<Rightarrow>
                         (Inr \<lparr>rd_fileHandle = fh, rd_gzReader = gz\<rparr>, w3)))))"

text \<open>
  \<open>ByteArray\<close> registers \<open>defer func() { _ = reader.Close() }()\<close> right after \<open>GetReader\<close>,
  before it looks at \<open>err\<close>. \<open>deferred_Close\<close> is that deferred call, run on every return
  of the body: with a nil \<open>reader\<close> (every failure of \<open>GetReader\<close>) the field access
  \<open>reader.fileHandle\<close> panics; otherwise the result of \<open>Close\<close> is dropped.
\<close>

definition deferred_Close ::
  "BinAppendReader option \<Rightarrow> (error + bytes) \<times> world \<Rightarrow> (error + bytes) outcome \<times> world"
where
  "deferred_Close reader rw =
     (case rw of
        (r, w) \<Rightarrow>
          (case reader of
             None \<Rightarrow> (Panicked, w)
           | Some rd \<Rightarrow> (case BinAppendReader_Close rd w of (e, w') \<Rightarrow> (Returned r, w'))))"

definition ByteArray ::
  "codec \<Rightarrow> BinAppendExtractor \<Rightarrow> string \<Rightarrow> world \<Rightarrow> (error + bytes) outcome \<times> world"
where
  "ByteArray c extractor dataName w =
     (case GetReader c extractor dataName w of
        (Inl err, w1) \<Rightarrow>
          deferred_Close None (Inl (Wrap err ''Generating reader for reading ByteArray''), w1)
      | (Inr reader, w1) \<Rightarrow>
          deferred_Close (Some reader)
            (case ioutil_ReadAll c reader w1 of
               (Inl err, w2) \<Rightarrow> (Inl (Wrap err ''Reading all data in''), w2)
             | (Inr data, w2) \<Rightarrow>
                 (case BinAppendReader_Close reader w2 of
                    (Some err, w3) \<Rightarrow> (Inl err, w3)
                  | (None, w3) \<Rightarrow> (Inr data, w3))))"

subsection \<open>A client that appends a list of named blocks\<close>

text \<open>
  \<open>append_all\<close> calls \<open>AppendStreamReader\<close> once for each named byte sequence, in order,
  and stops at the first error, as a caller that checks every \<open>err\<close> does.
\<close>

fun append_all ::
  "codec \<Rightarrow> (string \<times> bytes) list \<Rightarrow> BinAppender \<Rightarrow> world \<Rightarrow> error option \<times> BinAppender \<times> world"
where
  "append_all c [] appender w = (None, appender, w)"
| "append_all c ((name, b) # xs) appender w =
     (case AppendStreamReader c name (BytesReader b) appender w of
        (Some err, appender', w') \<Rightarrow> (Some err, appender', w')
      | (None, appender', w') \<Rightarrow> append_all c xs appender' w')"

subsection \<open>Vocabulary of the statements\<close>

text \<open>
  \<open>open_on w h p f\<close>: the file object \<open>h\<close> is open on the path \<open>p\<close>, whose content is
  \<open>f\<close>.
\<close>

definition open_on :: "world \<Rightarrow> nat \<Rightarrow> string \<Rightarrow> bytes \<Rightarrow> bool" where
  "open_on w h p f \<longleftrightarrow>
     h < length (objs w) \<and> f_path (objs w ! h) = p \<and> \<not> f_closed (objs w ! h)
       \<and> files w p = Some f"

text \<open>The file objects that still hold a handle.\<close>

definition open_handles :: "world \<Rightarrow> nat list" where
  "open_handles w = filter (\<lambda>h. \<not> f_closed (objs w ! h)) [0..<length (objs w)]"

text \<open>
  The compressed blocks of a list of named byte sequences, back to back, and the index a
  run of appends builds over a file that is \<open>L\<close> bytes long when the run starts.
\<close>

definition body :: "codec \<Rightarrow> (string \<times> bytes) list \<Rightarrow> bytes" where
  "body c xs = concat (map (\<lambda>x. gzip_compress c (snd x)) xs)"

fun index_after ::
  "codec \<Rightarrow> nat \<Rightarrow> (string \<times> bytes) list \<Rightarrow> (string \<rightharpoonup> appendedData) \<Rightarrow> (string \<rightharpoonup> appendedData)"
where
  "index_after c L [] m = m"
| "index_after c L ((name, b) # xs) m =
     index_after c (L + length (gzip_compress c b)) xs
       (m(name \<mapsto> \<lparr>StartFilePtr = int L, ZippedSize = int (length (gzip_compress c b))\<rparr>))"



text \<open>Every file of \<open>w\<close> is still there in \<open>w'\<close>, with its old content as a prefix.\<close>

definition extends :: "world \<Rightarrow> world \<Rightarrow> bool" where
  "extends w w' \<longleftrightarrow>
     (\<forall>p old. files w p = Some old \<longrightarrow> (\<exists>new. files w' p = Some new \<and> prefix old new))"

text \<open>The compressed sizes \<open>s1, ..., sk\<close> of a list of named byte sequences.\<close>

definition compressed_sizes :: "codec \<Rightarrow> (string \<times> bytes) list \<Rightarrow> nat list" where
  "compressed_sizes c xs = map (\<lambda>x. length (gzip_compress c (snd x))) xs"

text \<open>
  The base name of a path as the specification words it: the final path component.
\<close>

definition spec_base_name :: "string \<Rightarrow> string" where
  "spec_base_name path = rev (takeWhile (\<lambda>ch. ch \<noteq> CHR ''/'') (rev path))"

text \<open>\<open>at_end w h\<close>: the offset of the open file object \<open>h\<close> is the length of its file.\<close>

definition at_end :: "world \<Rightarrow> nat \<Rightarrow> bool" where
  "at_end w h \<longleftrightarrow> (\<forall>f bs. live w h = Some (f, bs) \<longrightarrow> f_off f = length bs)"

subsection \<open>Concrete values for the examples\<close>

text \<open>
  A small codec to evaluate examples with: compression prepends the two magic bytes of
  gzip, and the index decoder accepts \<open>{}\<close> and answers the index \<open>md\<close>.
\<close>

definition example_codec :: "appendedMetadata \<Rightarrow> codec" where
  "example_codec md =
     \<lparr>gzip_compress = (\<lambda>b. 31 # 139 # b),
      gzip_header_ok = (\<lambda>s. take 2 s = [31, 139]),
      gzip_inflate = (\<lambda>s. if take 2 s = [31, 139] then Some (drop 2 s) else None),
      json_Marshal = (\<lambda>m. Some [123, 125]),
      json_Decode = (\<lambda>s. if take 2 s = [123, 125] then Some md else None)\<rparr>"

definition empty_index :: appendedMetadata where
  "empty_index = \<lparr>Version = METADATA_VERSION, Data = Map.empty\<rparr>"

definition one_file :: "string \<Rightarrow> bytes \<Rightarrow> world" where
  "one_file path bs = \<lparr>files = Map.empty(path \<mapsto> bs), objs = []\<rparr>"

definition example_index :: appendedMetadata where
  "example_index =
     \<lparr>Version = METADATA_VERSION,
      Data = [''a'' \<mapsto> \<lparr>StartFilePtr = 1, ZippedSize = 7\<rparr>,
              ''b'' \<mapsto> \<lparr>StartFilePtr = 8, ZippedSize = 2\<rparr>]\<rparr>"

text \<open>A file system with one file and one file object on it.\<close>

definition opened :: "string \<Rightarrow> bytes \<Rightarrow> nat \<Rightarrow> bool \<Rightarrow> world" where
  "opened path bs off closed =
     \<lparr>files = [path \<mapsto> bs], objs = [\<lparr>f_path = path, f_off = off, f_closed = closed\<rparr>]\<rparr>"


definition other_version :: appendedMetadata where
  "other_version = \<lparr>Version = ''0.2'', Data = Map.empty\<rparr>"

definition with_source :: "bytes \<Rightarrow> nat \<Rightarrow> string \<Rightarrow> bytes \<Rightarrow> world" where
  "with_source bs off source content =
     \<lparr>files = [''bin'' \<mapsto> bs, source \<mapsto> content],
      objs = [\<lparr>f_path = ''bin'', f_off = off, f_closed = False\<rparr>]\<rparr>"

section \<open>The primitives\<close>

subsection \<open>The little-endian pointer\<close>

lemma Uint64_PutUint64: "Uint64 (PutUint64 v) = v"
proof (rule bit_word_eqI)
  fix n :: nat
  assume "n < LENGTH(64)"
  then have n: "n < 64" by simp
  then consider "n < 8" | "8 \<le> n \<and> n < 16" | "16 \<le> n \<and> n < 24" | "24 \<le> n \<and> n < 32"
    | "32 \<le> n \<and> n < 40" | "40 \<le> n \<and> n < 48" | "48 \<le> n \<and> n < 56" | "56 \<le> n \<and> n < 64"
    by linarith
  then show "bit (Uint64 (PutUint64 v)) n = bit v n"
    by cases (auto simp add: Uint64_def PutUint64_def bit_simps cong: conj_cong)
qed


lemma length_PutUint64: "length (PutUint64 v) = 8"
  by (simp add: PutUint64_def)

lemma unat_Uint64_PutUint64:
  "n < 2 ^ 64 \<Longrightarrow> unat (Uint64 (PutUint64 (word_of_int (int n)))) = n"
  by (simp add: Uint64_PutUint64 unat_of_nat)

lemma last8: "drop (length (f @ js @ PutUint64 v) - 8) (f @ js @ PutUint64 v) = PutUint64 v"
  by (simp add: length_PutUint64)

subsection \<open>Appending through an open handle\<close>

lemma live_open_on: "open_on w h p f \<Longrightarrow> live w h = Some (objs w ! h, f)"
  by (simp add: open_on_def live_def)

lemma AppendStreamReader_bytes:
  assumes "open_on w (app_fileHandle a) p f"
  shows "AppendStreamReader c n (BytesReader b) a w =
    (None,
     a\<lparr>app_metadata := (app_metadata a)\<lparr>Data := (Data (app_metadata a))
        (n \<mapsto> \<lparr>StartFilePtr = int (length f), ZippedSize = int (length (gzip_compress c b))\<rparr>)\<rparr>\<rparr>,
     w\<lparr>files := (files w)(p \<mapsto> f @ gzip_compress c b),
       objs := (objs w)[app_fileHandle a :=
                 (objs w ! app_fileHandle a)\<lparr>f_off := length f + length (gzip_compress c b)\<rparr>]\<rparr>)"
  using assms
  by (simp add: AppendStreamReader_def Seek_def Write_def live_def read_to_EOF_def open_on_def)

lemma open_on_after_append:
  "open_on w h p f \<Longrightarrow>
   open_on (w\<lparr>files := (files w)(p \<mapsto> f'),
              objs := (objs w)[h := (objs w ! h)\<lparr>f_off := n\<rparr>]\<rparr>) h p f'"
  by (simp add: open_on_def)

lemma append_all_ok:
  "open_on w (app_fileHandle a) p f \<Longrightarrow>
   \<exists>w1. append_all c xs a w =
          (None,
           a\<lparr>app_metadata := (app_metadata a)
               \<lparr>Data := index_after c (length f) xs (Data (app_metadata a))\<rparr>\<rparr>, w1)
        \<and> open_on w1 (app_fileHandle a) p (f @ body c xs)
        \<and> (\<forall>q. q \<noteq> p \<longrightarrow> files w1 q = files w q)
        \<and> length (objs w1) = length (objs w)"
proof (induction xs arbitrary: a w f)
  case Nil
  then show ?case by (simp add: body_def)
next
  case (Cons x xs)
  obtain n b where x: "x = (n, b)" by (cases x)
  let ?z = "gzip_compress c b"
  let ?a' = "a\<lparr>app_metadata := (app_metadata a)\<lparr>Data := (Data (app_metadata a))
        (n \<mapsto> \<lparr>StartFilePtr = int (length f), ZippedSize = int (length ?z)\<rparr>)\<rparr>\<rparr>"
  let ?w' = "w\<lparr>files := (files w)(p \<mapsto> f @ ?z),
       objs := (objs w)[app_fileHandle a :=
                 (objs w ! app_fileHandle a)\<lparr>f_off := length f + length ?z\<rparr>]\<rparr>"
  have step: "AppendStreamReader c n (BytesReader b) a w = (None, ?a', ?w')"
    by (rule AppendStreamReader_bytes [OF Cons.prems])
  have o': "open_on ?w' (app_fileHandle ?a') p (f @ ?z)"
    using open_on_after_append [OF Cons.prems] by simp
  from Cons.IH [OF o', of ] obtain w1 where
    run: "append_all c xs ?a' ?w' =
          (None, ?a'\<lparr>app_metadata := (app_metadata ?a')
               \<lparr>Data := index_after c (length (f @ ?z)) xs (Data (app_metadata ?a'))\<rparr>\<rparr>, w1)"
    and o1: "open_on w1 (app_fileHandle ?a') p ((f @ ?z) @ body c xs)"
    and fr: "\<forall>q. q \<noteq> p \<longrightarrow> files w1 q = files ?w' q"
    and len: "length (objs w1) = length (objs ?w')"
    by blast
  show ?case
    using run o1 fr len by (simp add: x step body_def)
qed

lemma index_after_notin:
  "n \<notin> fst ` set xs \<Longrightarrow> index_after c L xs m n = m n"
  by (induction xs arbitrary: L m) auto

lemma index_after_lookup:
  "n \<notin> fst ` set zs \<Longrightarrow>
   index_after c L (ys @ (n, b) # zs) m n =
     Some \<lparr>StartFilePtr = int (L + length (body c ys)),
           ZippedSize = int (length (gzip_compress c b))\<rparr>"
proof (induction ys arbitrary: L m)
  case Nil
  then show ?case by (simp add: body_def index_after_notin)
next
  case (Cons y ys)
  then show ?case by (cases y) (simp add: body_def add.assoc)
qed



lemma length_body: "length (body c xs) = sum_list (map (\<lambda>x. length (gzip_compress c (snd x))) xs)"
  by (simp add: body_def length_concat comp_def)

lemma length_body_sizes: "length (body c xs) = sum_list (compressed_sizes c xs)"
  by (simp add: compressed_sizes_def length_body)

lemma BinAppender_Close_ok:
  assumes "open_on w (app_fileHandle a) p f"
    and "json_Marshal c (app_metadata a) = Some js"
  shows "\<exists>w2. BinAppender_Close c a w = (None, w2)
        \<and> files w2 = (files w)(p \<mapsto> f @ js @ PutUint64 (word_of_int (int (length f))))
        \<and> length (objs w2) = length (objs w)
        \<and> f_closed (objs w2 ! app_fileHandle a)
        \<and> (\<forall>i. i \<noteq> app_fileHandle a \<longrightarrow> objs w2 ! i = objs w ! i)"
  using assms
  by (simp add: BinAppender_Close_def Seek_def Write_def live_def os_Close_def open_on_def)

subsection \<open>Opening a container and reading a block\<close>

lemma MakeAppender_ok:
  "files w p = Some f \<Longrightarrow>
   MakeAppender p w =
     (Inr \<lparr>app_fileHandle = length (objs w),
           app_metadata = \<lparr>Version = METADATA_VERSION, Data = Map.empty\<rparr>\<rparr>,
      w\<lparr>objs := objs w @ [\<lparr>f_path = p, f_off = 0, f_closed = False\<rparr>]\<rparr>)"
  by (simp add: MakeAppender_def os_Open_def)

lemma open_on_fresh:
  "files w p = Some f \<Longrightarrow>
   open_on (w\<lparr>objs := objs w @ [\<lparr>f_path = p, f_off = 0, f_closed = False\<rparr>]\<rparr>)
     (length (objs w)) p f"
  by (simp add: open_on_def)

lemma filter_open_snoc:
  "filter (\<lambda>h. \<not> f_closed ((xs @ [x]) ! h)) [0..<length xs] =
   filter (\<lambda>h. \<not> f_closed (xs ! h)) [0..<length xs]"
  by (rule filter_cong) (simp_all add: nth_append)



lemma MakeAppender_Inr:
  assumes "MakeAppender p w = (Inr a0, w0)"
  obtains f where "files w p = Some f" and "open_on w0 (app_fileHandle a0) p f"
    and "app_metadata a0 = \<lparr>Version = METADATA_VERSION, Data = Map.empty\<rparr>"
proof (cases "files w p")
  case None
  with assms show ?thesis by (simp add: MakeAppender_def os_Open_def)
next
  case (Some f)
  with assms have "a0 = \<lparr>app_fileHandle = length (objs w),
           app_metadata = \<lparr>Version = METADATA_VERSION, Data = Map.empty\<rparr>\<rparr>"
    and "w0 = w\<lparr>objs := objs w @ [\<lparr>f_path = p, f_off = 0, f_closed = False\<rparr>]\<rparr>"
    by (simp_all add: MakeAppender_ok)
  with Some open_on_fresh [OF Some] that show ?thesis by simp
qed


section \<open>Writes only extend files\<close>

lemma extends_refl: "extends w w"
  by (simp add: extends_def)

lemma extends_trans: "extends w w' \<Longrightarrow> extends w' w'' \<Longrightarrow> extends w w''"
  unfolding extends_def by (meson prefix_order.trans)

lemma extends_same_files: "files w' = files w \<Longrightarrow> extends w w'"
  by (simp add: extends_def)

lemma Seek_files: "Seek h off wh w = (r, w') \<Longrightarrow> files w' = files w"
  by (auto simp: Seek_def Let_def split: option.splits if_splits)

lemma Seek_End_at_end: "Seek h 0 SeekEnd w = (Inr pos, w') \<Longrightarrow> at_end w' h"
  by (auto simp: Seek_def Let_def at_end_def live_def split: option.splits if_splits)

lemma read_to_EOF_files: "read_to_EOF src w = (r, w') \<Longrightarrow> files w' = files w"
  by (auto simp: read_to_EOF_def split: io_Reader.splits option.splits)

lemma read_to_EOF_at_end: "read_to_EOF src w = (r, w') \<Longrightarrow> at_end w h \<Longrightarrow> at_end w' h"
  apply (cases src)
   apply (simp add: read_to_EOF_def)
  apply (auto simp: read_to_EOF_def at_end_def live_def nth_list_update split: option.splits if_splits)
  done

lemma Write_at_end_extends:
  "Write h z w = (r, w') \<Longrightarrow> at_end w h \<Longrightarrow> extends w w' \<and> at_end w' h"
  by (auto simp: Write_def Let_def at_end_def live_def extends_def split: option.splits if_splits)

lemma os_Close_files: "os_Close fh w = (r, w') \<Longrightarrow> files w' = files w"
  by (auto simp: os_Close_def split: option.splits if_splits)

lemma AppendStreamReader_extends:
  assumes "AppendStreamReader c name source appender w = (r, a', w')"
  shows "extends w w'"
proof -
  let ?h = "app_fileHandle appender"
  obtain r1 w1 where s1: "Seek ?h 0 SeekEnd w = (r1, w1)" by (cases "Seek ?h 0 SeekEnd w")
  then have e1: "extends w w1" by (intro extends_same_files Seek_files)
  show ?thesis
  proof (cases r1)
    case (Inl err)
    with assms s1 e1 show ?thesis by (simp add: AppendStreamReader_def)
  next
    case (Inr startPtr)
    with s1 have end1: "at_end w1 ?h" by (auto dest: Seek_End_at_end)
    obtain r2 w2 where s2: "read_to_EOF source w1 = (r2, w2)" by (cases "read_to_EOF source w1")
    then have e2: "extends w1 w2" and end2: "at_end w2 ?h"
      using end1 by (auto intro: extends_same_files read_to_EOF_files read_to_EOF_at_end)
    show ?thesis
    proof (cases r2)
      case (Inl err)
      with assms s1 s2 Inr e1 e2 show ?thesis
        by (auto simp: AppendStreamReader_def intro: extends_trans)
    next
      case data: (Inr data)
      obtain r3 w3 where s3: "Write ?h (gzip_compress c data) w2 = (r3, w3)"
        by (cases "Write ?h (gzip_compress c data) w2")
      with end2 have e3: "extends w2 w3" by (auto dest: Write_at_end_extends)
      have e03: "extends w w3" using e1 e2 e3 by (blast intro: extends_trans)
      show ?thesis
      proof (cases r3)
        case (Inl err)
        with assms s1 s2 s3 Inr data e03 show ?thesis by (simp add: AppendStreamReader_def)
      next
        case n: (Inr n)
        obtain r4 w4 where s4: "Seek ?h 0 SeekEnd w3 = (r4, w4)" by (cases "Seek ?h 0 SeekEnd w3")
        then have "extends w3 w4" by (intro extends_same_files Seek_files)
        with e03 have e04: "extends w w4" by (blast intro: extends_trans)
        from assms s1 s2 s3 s4 Inr data n have "w' = w4"
          by (cases r4) (simp_all add: AppendStreamReader_def Let_def)
        with e04 show ?thesis by simp
      qed
    qed
  qed
qed

lemma BinAppender_Close_extends:
  assumes "BinAppender_Close c appender w = (r, w')"
  shows "extends w w'"
proof -
  let ?h = "app_fileHandle appender"
  obtain r1 w1 where s1: "Seek ?h 0 SeekEnd w = (r1, w1)" by (cases "Seek ?h 0 SeekEnd w")
  then have e1: "extends w w1" by (intro extends_same_files Seek_files)
  show ?thesis
  proof (cases r1)
    case (Inl err)
    with assms s1 e1 show ?thesis by (simp add: BinAppender_Close_def)
  next
    case (Inr jsonPtr)
    with s1 have end1: "at_end w1 ?h" by (auto dest: Seek_End_at_end)
    show ?thesis
    proof (cases "json_Marshal c (app_metadata appender)")
      case None
      with assms s1 Inr e1 show ?thesis by (simp add: BinAppender_Close_def)
    next
      case (Some jsonBytes)
      obtain r2 w2 where s2: "Write ?h jsonBytes w1 = (r2, w2)" by (cases "Write ?h jsonBytes w1")
      with end1 have e2: "extends w1 w2" and end2: "at_end w2 ?h"
        by (auto dest: Write_at_end_extends)
      have e02: "extends w w2" using e1 e2 by (blast intro: extends_trans)
      show ?thesis
      proof (cases r2)
        case (Inl err)
        with assms s1 s2 Inr Some e02 show ?thesis by (simp add: BinAppender_Close_def)
      next
        case n: (Inr n)
        obtain r3 w3 where s3: "Write ?h (PutUint64 (word_of_int jsonPtr)) w2 = (r3, w3)"
          by (cases "Write ?h (PutUint64 (word_of_int jsonPtr)) w2")
        with end2 have "extends w2 w3" by (auto dest: Write_at_end_extends)
        with e02 have e03: "extends w w3" by (blast intro: extends_trans)
        show ?thesis
        proof (cases r3)
          case (Inl err)
          with assms s1 s2 s3 Inr Some n e03 show ?thesis by (simp add: BinAppender_Close_def)
        next
          case m: (Inr m)
          with assms s1 s2 s3 Inr Some n
          have "os_Close (Some ?h) w3 = (r, w')" by (simp add: BinAppender_Close_def)
          then have "extends w3 w'" by (intro extends_same_files os_Close_files)
          with e03 show ?thesis by (blast intro: extends_trans)
        qed
      qed
    qed
  qed
qed

lemma append_all_extends:
  "append_all c xs appender w = (r, a', w') \<Longrightarrow> extends w w'"
proof (induction xs arbitrary: appender w)
  case Nil
  then show ?case by (simp add: extends_refl)
next
  case (Cons x xs)
  obtain n b where x: "x = (n, b)" by (cases x)
  obtain r1 a1 w1 where s: "AppendStreamReader c n (BytesReader b) appender w = (r1, a1, w1)"
    by (cases "AppendStreamReader c n (BytesReader b) appender w")
  then have e1: "extends w w1" by (rule AppendStreamReader_extends)
  show ?case
  proof (cases r1)
    case None
    with Cons.prems x s have "append_all c xs a1 w1 = (r, a', w')" by simp
    then have "extends w1 w'" by (rule Cons.IH)
    with e1 show ?thesis by (blast intro: extends_trans)
  next
    case (Some err)
    with Cons.prems x s e1 show ?thesis by simp
  qed
qed

section \<open>A worked example\<close>

text \<open>
  A one-byte file \<open>bin\<close> gets the blocks \<open>a\<close> (five bytes) and \<open>b\<close> (empty) and is
  closed. The facts below evaluate each call.
\<close>

lemma example_MakeAppender:
  "MakeAppender ''bin'' (one_file ''bin'' [127]) =
    (Inr \<lparr>app_fileHandle = 0, app_metadata = empty_index\<rparr>, opened ''bin'' [127] 0 False)"
  by (simp add: MakeAppender_def os_Open_def one_file_def opened_def empty_index_def)

lemma example_append_all:
  "append_all (example_codec example_index) [(''a'', [1, 2, 3, 4, 5]), (''b'', [])]
      \<lparr>app_fileHandle = 0, app_metadata = empty_index\<rparr> (opened ''bin'' [127] 0 False) =
    (None, \<lparr>app_fileHandle = 0, app_metadata = example_index\<rparr>,
     opened ''bin'' [127, 31, 139, 1, 2, 3, 4, 5, 31, 139] 10 False)"
  by (simp add: AppendStreamReader_def Seek_def Write_def live_def read_to_EOF_def
      opened_def empty_index_def example_index_def example_codec_def)

lemma example_Close:
  "BinAppender_Close (example_codec example_index)
      \<lparr>app_fileHandle = 0, app_metadata = example_index\<rparr>
      (opened ''bin'' [127, 31, 139, 1, 2, 3, 4, 5, 31, 139] 10 False) =
    (None, opened ''bin''
       [127, 31, 139, 1, 2, 3, 4, 5, 31, 139, 123, 125, 10, 0, 0, 0, 0, 0, 0, 0] 20 True)"
  by (simp add: BinAppender_Close_def Seek_def Write_def live_def os_Close_def
      opened_def example_codec_def PutUint64_def)



lemma example_single:
  "AppendStreamReader (example_codec example_index) ''a'' (BytesReader [1, 2, 3, 4, 5])
      \<lparr>app_fileHandle = 0, app_metadata = empty_index\<rparr> (opened ''bin'' [127] 0 False) =
    (None,
     \<lparr>app_fileHandle = 0,
       app_metadata = \<lparr>Version = METADATA_VERSION,
          Data = [''a'' \<mapsto> \<lparr>StartFilePtr = 1, ZippedSize = 7\<rparr>]\<rparr>\<rparr>,
     opened ''bin'' [127, 31, 139, 1, 2, 3, 4, 5] 8 False)"
  by (simp add: AppendStreamReader_def Seek_def Write_def live_def read_to_EOF_def
      opened_def empty_index_def example_codec_def)




lemma example_file: "files (one_file ''bin'' [127]) ''bin'' = Some [127]"
  by (simp add: one_file_def)

section \<open>Round trip\<close>




section \<open>Duplicate names\<close>

text \<open>
  C2, as stated, fails. \<open>AppendStreamReader\<close> does not look the name up: here the index
  already holds \<open>a\<close>, and a second append under \<open>a\<close> returns no error, writes three more
  bytes and replaces the entry.
\<close>

theorem second_append_counterexample:
  "Data (app_metadata \<lparr>app_fileHandle = 0, app_metadata = example_index\<rparr>) ''a''
     = Some \<lparr>StartFilePtr = 1, ZippedSize = 7\<rparr>
   \<and> AppendStreamReader (example_codec example_index) ''a'' (BytesReader [9])
       \<lparr>app_fileHandle = 0, app_metadata = example_index\<rparr>
       (opened ''bin'' [127, 31, 139, 1, 2, 3, 4, 5, 31, 139] 10 False)
     = (None,
        \<lparr>app_fileHandle = 0,
          app_metadata = example_index
            \<lparr>Data := (Data example_index)(''a'' \<mapsto> \<lparr>StartFilePtr = 10, ZippedSize = 3\<rparr>)\<rparr>\<rparr>,
        opened ''bin'' [127, 31, 139, 1, 2, 3, 4, 5, 31, 139, 31, 139, 9] 13 False)"
  by (simp add: AppendStreamReader_def Seek_def Write_def live_def read_to_EOF_def
      opened_def example_index_def example_codec_def)

text \<open>
  C2, amended. The duplicate check is in \<open>AppendFile\<close>: for every appender and every name
  already in its index, \<open>AppendFile\<close> of that name, once the source file is open, fails
  with the already-added error before any byte is written; the appender is returned as it
  was and no file changes in size or content.
\<close>

theorem AppendFile_duplicate:
  assumes "Data (app_metadata appender) source = Some d"
    and "files w source = Some content"
  shows "\<exists>w'. AppendFile c source appender w = (Some (AlreadyAdded source), appender, w')
           \<and> files w' = files w"
  using assms by (simp add: AppendFile_def os_Open_def)

theorem AppendFile_duplicate_witness:
  "Data (app_metadata \<lparr>app_fileHandle = 0, app_metadata = example_index\<rparr>) ''a''
      = Some \<lparr>StartFilePtr = 1, ZippedSize = 7\<rparr>
   \<and> files (with_source [127, 31, 139, 1, 2, 3, 4, 5, 31, 139] 10 ''a'' [1, 2, 3, 4, 5]) ''a''
      = Some [1, 2, 3, 4, 5]
   \<and> (\<exists>w'. AppendFile (example_codec example_index) ''a''
            \<lparr>app_fileHandle = 0, app_metadata = example_index\<rparr>
            (with_source [127, 31, 139, 1, 2, 3, 4, 5, 31, 139] 10 ''a'' [1, 2, 3, 4, 5])
          = (Some (AlreadyAdded ''a''), \<lparr>app_fileHandle = 0, app_metadata = example_index\<rparr>, w')
        \<and> files w'
          = files (with_source [127, 31, 139, 1, 2, 3, 4, 5, 31, 139] 10 ''a'' [1, 2, 3, 4, 5]))"
proof -
  have d: "Data (app_metadata \<lparr>app_fileHandle = 0, app_metadata = example_index\<rparr>) ''a''
      = Some \<lparr>StartFilePtr = 1, ZippedSize = 7\<rparr>"
    by (simp add: example_index_def)
  have s: "files (with_source [127, 31, 139, 1, 2, 3, 4, 5, 31, 139] 10 ''a'' [1, 2, 3, 4, 5]) ''a''
      = Some [1, 2, 3, 4, 5]"
    by (simp add: with_source_def)
  from AppendFile_duplicate [OF d s] d s show ?thesis by blast
qed

section \<open>Offsets\<close>

text \<open>
  C3, as stated, fails. The appender opens an existing file and appends to it, so offsets
  count from the start of that file, not from the first block. On a one-byte file the
  blocks of compressed sizes 7 and 2 are recorded at 1 and 8, not at 0 and 7, and the
  trailer holds 10, not 9.
\<close>

theorem offsets_from_zero_counterexample:
  "compressed_sizes (example_codec example_index) [(''a'', [1, 2, 3, 4, 5]), (''b'', [])] = [7, 2]
   \<and> append_all (example_codec example_index) [(''a'', [1, 2, 3, 4, 5]), (''b'', [])]
        \<lparr>app_fileHandle = 0, app_metadata = empty_index\<rparr> (opened ''bin'' [127] 0 False) =
      (None, \<lparr>app_fileHandle = 0, app_metadata = example_index\<rparr>,
       opened ''bin'' [127, 31, 139, 1, 2, 3, 4, 5, 31, 139] 10 False)
   \<and> Data example_index ''a'' = Some \<lparr>StartFilePtr = 1, ZippedSize = 7\<rparr>
   \<and> Data example_index ''a'' \<noteq> Some \<lparr>StartFilePtr = int (sum_list (take 0 [7, 2])), ZippedSize = 7\<rparr>
   \<and> Data example_index ''b'' = Some \<lparr>StartFilePtr = 8, ZippedSize = 2\<rparr>
   \<and> Data example_index ''b'' \<noteq> Some \<lparr>StartFilePtr = int (sum_list (take 1 [7, 2])), ZippedSize = 2\<rparr>
   \<and> BinAppender_Close (example_codec example_index)
        \<lparr>app_fileHandle = 0, app_metadata = example_index\<rparr>
        (opened ''bin'' [127, 31, 139, 1, 2, 3, 4, 5, 31, 139] 10 False) =
      (None, opened ''bin''
         [127, 31, 139, 1, 2, 3, 4, 5, 31, 139, 123, 125, 10, 0, 0, 0, 0, 0, 0, 0] 20 True)
   \<and> unat (Uint64 (drop 12
         [127, 31, 139, 1, 2, 3, 4, 5, 31, 139, 123, 125, 10, 0, 0, 0, 0, 0, 0, 0])) = 10
   \<and> (10 :: nat) \<noteq> sum_list [7, 2]"
proof -
  have sizes: "compressed_sizes (example_codec example_index)
      [(''a'', [1, 2, 3, 4, 5]), (''b'', [])] = [7, 2]"
    by (simp add: compressed_sizes_def example_codec_def)
  have a: "Data example_index ''a'' = Some \<lparr>StartFilePtr = 1, ZippedSize = 7\<rparr>"
    and a': "Data example_index ''a''
        \<noteq> Some \<lparr>StartFilePtr = int (sum_list (take 0 [7, 2])), ZippedSize = 7\<rparr>"
    and b: "Data example_index ''b'' = Some \<lparr>StartFilePtr = 8, ZippedSize = 2\<rparr>"
    and b': "Data example_index ''b''
        \<noteq> Some \<lparr>StartFilePtr = int (sum_list (take 1 [7, 2])), ZippedSize = 2\<rparr>"
    by (simp_all add: example_index_def)
  have ptr: "unat (Uint64 (drop 12
         [127, 31, 139, 1, 2, 3, 4, 5, 31, 139, 123, 125, 10, 0, 0, 0, 0, 0, 0, 0])) = 10"
    by (simp add: Uint64_def)
  have ne: "(10 :: nat) \<noteq> sum_list [7, 2]" by simp
  from sizes example_append_all a a' b b' example_Close ptr ne show ?thesis
    by blast
qed

text \<open>
  C3, amended. Let \<open>f0\<close> be the content of the file when the appender is made. After
  appending \<open>k\<close> blocks of compressed sizes \<open>s1, ..., sk\<close> and calling \<open>Close\<close>, every
  call has returned without error; the entry of each block whose name is not appended
  again has \<open>StartFilePtr = length f0 + s1 + ... + s(i-1)\<close> and \<open>ZippedSize = si\<close>; and the
  last 8 bytes of the file, read as a little-endian unsigned 64-bit integer, are
  \<open>length f0 + s1 + ... + sk\<close>, the offset at which the serialized index begins.
\<close>

theorem offset_bookkeeping:
  assumes mk: "MakeAppender filename w = (Inr a0, w0)"
    and f0: "files w filename = Some f0"
    and run: "append_all c xs a0 w0 = (r1, a1, w1)"
    and mar: "json_Marshal c (app_metadata a1) = Some js"
    and cl: "BinAppender_Close c a1 w1 = (r2, w2)"
    and small: "length f0 + sum_list (compressed_sizes c xs) < 2 ^ 64"
  shows "r1 = None \<and> r2 = None
    \<and> (\<forall>i. i < length xs \<and> fst (xs ! i) \<notin> fst ` set (drop (Suc i) xs) \<longrightarrow>
          Data (app_metadata a1) (fst (xs ! i)) =
            Some \<lparr>StartFilePtr = int (length f0 + sum_list (take i (compressed_sizes c xs))),
                  ZippedSize = int (compressed_sizes c xs ! i)\<rparr>)
    \<and> (\<exists>final. files w2 filename = Some final
          \<and> unat (Uint64 (drop (length final - 8) final))
              = length f0 + sum_list (compressed_sizes c xs)
          \<and> drop (length f0 + sum_list (compressed_sizes c xs)) final
              = js @ drop (length final - 8) final)"
proof -
  from mk obtain f where f: "files w filename = Some f"
    and o0: "open_on w0 (app_fileHandle a0) filename f"
    and m0: "app_metadata a0 = \<lparr>Version = METADATA_VERSION, Data = Map.empty\<rparr>"
    by (rule MakeAppender_Inr)
  from f f0 have ff: "f = f0" by simp
  from append_all_ok [OF o0, of c xs] run
  have r1: "r1 = None"
    and a1: "a1 = a0\<lparr>app_metadata := (app_metadata a0)
               \<lparr>Data := index_after c (length f0) xs (Data (app_metadata a0))\<rparr>\<rparr>"
    and o1: "open_on w1 (app_fileHandle a0) filename (f0 @ body c xs)"
    by (auto simp: ff)
  from a1 m0 have md: "Data (app_metadata a1) = index_after c (length f0) xs Map.empty"
    by simp
  from a1 o1 have o1': "open_on w1 (app_fileHandle a1) filename (f0 @ body c xs)" by simp
  let ?n = "length f0 + sum_list (compressed_sizes c xs)"
  let ?final = "(f0 @ body c xs) @ js @ PutUint64 (word_of_int (int (length (f0 @ body c xs))))"
  from BinAppender_Close_ok [OF o1' mar] cl
  have r2: "r2 = None" and f2: "files w2 filename = Some ?final"
    by auto
  have n: "length (f0 @ body c xs) = ?n" by (simp add: length_body_sizes)
  have tr: "drop (length ?final - 8) ?final = PutUint64 (word_of_int (int ?n))"
    unfolding n [symmetric] by (rule last8)
  have u: "unat (Uint64 (drop (length ?final - 8) ?final)) = ?n"
    unfolding tr by (rule unat_Uint64_PutUint64 [OF small])
  have d: "drop ?n ?final = js @ drop (length ?final - 8) ?final"
    unfolding tr by (simp add: length_body_sizes)
  have ix: "Data (app_metadata a1) (fst (xs ! i)) =
            Some \<lparr>StartFilePtr = int (length f0 + sum_list (take i (compressed_sizes c xs))),
                  ZippedSize = int (compressed_sizes c xs ! i)\<rparr>"
    if i: "i < length xs" and later: "fst (xs ! i) \<notin> fst ` set (drop (Suc i) xs)" for i
  proof -
    have "index_after c (length f0) (take i xs @ xs ! i # drop (Suc i) xs)
            Map.empty (fst (xs ! i)) =
          Some \<lparr>StartFilePtr = int (length f0 + length (body c (take i xs))),
                ZippedSize = int (length (gzip_compress c (snd (xs ! i))))\<rparr>"
      using index_after_lookup [OF later, of c "length f0" "take i xs" "snd (xs ! i)" Map.empty]
      by simp
    then have "index_after c (length f0) xs Map.empty (fst (xs ! i)) =
          Some \<lparr>StartFilePtr = int (length f0 + length (body c (take i xs))),
                ZippedSize = int (length (gzip_compress c (snd (xs ! i))))\<rparr>"
      by (simp only: id_take_nth_drop [OF i, symmetric])
    then show ?thesis
      using i by (simp add: md length_body_sizes compressed_sizes_def take_map)
  qed
  show ?thesis
    using r1 r2 ix f2 u d by blast
qed

theorem offset_bookkeeping_witness:
  "files (one_file ''bin'' [127]) ''bin'' = Some [127]
   \<and> json_Marshal (example_codec example_index)
        (app_metadata \<lparr>app_fileHandle = 0, app_metadata = example_index\<rparr>) = Some [123, 125]
   \<and> length [127 :: byte] + sum_list (compressed_sizes (example_codec example_index)
        [(''a'', [1, 2, 3, 4, 5]), (''b'', [])]) < 2 ^ 64
   \<and> Data (app_metadata \<lparr>app_fileHandle = 0, app_metadata = example_index\<rparr>)
        (fst ([(''a'', [1 :: byte, 2, 3, 4, 5]), (''b'', [])] ! 1)) =
        Some \<lparr>StartFilePtr = int (length [127 :: byte] + sum_list (take 1
                (compressed_sizes (example_codec example_index)
                   [(''a'', [1, 2, 3, 4, 5]), (''b'', [])]))),
              ZippedSize = int (compressed_sizes (example_codec example_index)
                   [(''a'', [1, 2, 3, 4, 5]), (''b'', [])] ! 1)\<rparr>
   \<and> (\<exists>final. files (opened ''bin''
            [127, 31, 139, 1, 2, 3, 4, 5, 31, 139, 123, 125, 10, 0, 0, 0, 0, 0, 0, 0] 20 True)
            ''bin'' = Some final
          \<and> unat (Uint64 (drop (length final - 8) final))
              = length [127 :: byte] + sum_list (compressed_sizes (example_codec example_index)
                  [(''a'', [1, 2, 3, 4, 5]), (''b'', [])])
          \<and> drop (length [127 :: byte] + sum_list (compressed_sizes (example_codec example_index)
                  [(''a'', [1, 2, 3, 4, 5]), (''b'', [])])) final
              = [123, 125] @ drop (length final - 8) final)"
proof -
  let ?xs = "[(''a'', [1 :: byte, 2, 3, 4, 5]), (''b'', [])]"
  have mar: "json_Marshal (example_codec example_index)
        (app_metadata \<lparr>app_fileHandle = 0, app_metadata = example_index\<rparr>) = Some [123, 125]"
    by (simp add: example_codec_def)
  have small: "length [127 :: byte] + sum_list (compressed_sizes (example_codec example_index) ?xs)
      < 2 ^ 64"
    by (simp add: compressed_sizes_def example_codec_def)
  note t = offset_bookkeeping [OF example_MakeAppender example_file example_append_all mar
      example_Close small]
  have i1: "1 < length ?xs \<and> fst (?xs ! 1) \<notin> fst ` set (drop (Suc 1) ?xs)" by simp
  note a = t [THEN conjunct2, THEN conjunct2, THEN conjunct1, rule_format, OF i1]
  note fin = t [THEN conjunct2, THEN conjunct2, THEN conjunct2]
  from example_file mar small a fin show ?thesis by blast
qed

section \<open>The name AppendFile records\<close>

text \<open>
  C4, as stated, fails. \<open>AppendFile\<close> passes its argument on as the name: the file
  \<open>d/a\<close> is recorded under \<open>d/a\<close>, and the index has no entry for its base name \<open>a\<close>.
\<close>

theorem base_name_counterexample:
  "spec_base_name ''d/a'' = ''a''
   \<and> AppendFile (example_codec example_index) ''d/a''
      \<lparr>app_fileHandle = 0, app_metadata = empty_index\<rparr>
      \<lparr>files = [''bin'' \<mapsto> [127], ''d/a'' \<mapsto> [1, 2, 3, 4, 5]],
       objs = [\<lparr>f_path = ''bin'', f_off = 0, f_closed = False\<rparr>]\<rparr>
    = (None,
       \<lparr>app_fileHandle = 0,
         app_metadata = \<lparr>Version = METADATA_VERSION,
            Data = [''d/a'' \<mapsto> \<lparr>StartFilePtr = 1, ZippedSize = 7\<rparr>]\<rparr>\<rparr>,
       \<lparr>files = [''bin'' \<mapsto> [127, 31, 139, 1, 2, 3, 4, 5], ''d/a'' \<mapsto> [1, 2, 3, 4, 5]],
        objs = [\<lparr>f_path = ''bin'', f_off = 8, f_closed = False\<rparr>,
                \<lparr>f_path = ''d/a'', f_off = 5, f_closed = True\<rparr>]\<rparr>)
   \<and> [''d/a'' \<mapsto> \<lparr>StartFilePtr = 1, ZippedSize = 7\<rparr>] ''a'' = None"
  by (simp add: spec_base_name_def AppendFile_def os_Open_def AppendStreamReader_def Seek_def
      Write_def live_def read_to_EOF_def os_Close_def empty_index_def example_codec_def
      fun_upd_twist)

text \<open>
  C4, amended. For every path \<open>p\<close> of a readable file other than the container, not yet in
  the index, \<open>AppendFile(p)\<close> on an open appender records the block under the full path
  string \<open>p\<close>: it hands the file's content to \<open>AppendStreamReader\<close>, which appends its
  compressed form to the container, and then closes the source handle, so the open
  handles are those of before the call.
\<close>

theorem AppendFile_full_path:
  assumes op: "open_on w (app_fileHandle appender) p f"
    and src: "files w source = Some content"
    and new: "Data (app_metadata appender) source = None"
    and other: "source \<noteq> p"
  shows "\<exists>w'. AppendFile c source appender w =
      (None,
       appender\<lparr>app_metadata := (app_metadata appender)\<lparr>Data := (Data (app_metadata appender))
         (source \<mapsto> \<lparr>StartFilePtr = int (length f),
                      ZippedSize = int (length (gzip_compress c content))\<rparr>)\<rparr>\<rparr>,
       w')
    \<and> files w' = (files w)(p \<mapsto> f @ gzip_compress c content)
    \<and> open_handles w' = open_handles w"
  using assms
  apply (simp add: AppendFile_def os_Open_def AppendStreamReader_def Seek_def live_def
      read_to_EOF_def Write_def os_Close_def open_on_def nth_append open_handles_def)
  apply (rule filter_cong)
   apply (simp_all add: nth_append nth_list_update)
  done

theorem AppendFile_full_path_witness:
  "open_on (with_source [127] 0 ''d/a'' [1, 2, 3, 4, 5])
      (app_fileHandle \<lparr>app_fileHandle = 0, app_metadata = empty_index\<rparr>) ''bin'' [127]
   \<and> files (with_source [127] 0 ''d/a'' [1, 2, 3, 4, 5]) ''d/a'' = Some [1, 2, 3, 4, 5]
   \<and> Data (app_metadata \<lparr>app_fileHandle = 0, app_metadata = empty_index\<rparr>) ''d/a'' = None
   \<and> ''d/a'' \<noteq> ''bin''
   \<and> (\<exists>w'. AppendFile (example_codec example_index) ''d/a''
            \<lparr>app_fileHandle = 0, app_metadata = empty_index\<rparr>
            (with_source [127] 0 ''d/a'' [1, 2, 3, 4, 5]) =
          (None,
           \<lparr>app_fileHandle = 0, app_metadata = empty_index\<rparr>
             \<lparr>app_metadata := (app_metadata \<lparr>app_fileHandle = 0, app_metadata = empty_index\<rparr>)
               \<lparr>Data := (Data (app_metadata \<lparr>app_fileHandle = 0, app_metadata = empty_index\<rparr>))
                 (''d/a'' \<mapsto> \<lparr>StartFilePtr = int (length [127 :: byte]),
                     ZippedSize = int (length (gzip_compress (example_codec example_index)
                        [1, 2, 3, 4, 5]))\<rparr>)\<rparr>\<rparr>,
           w')
        \<and> files w' = (files (with_source [127] 0 ''d/a'' [1, 2, 3, 4, 5]))
             (''bin'' \<mapsto> [127] @ gzip_compress (example_codec example_index) [1, 2, 3, 4, 5])
        \<and> open_handles w' = open_handles (with_source [127] 0 ''d/a'' [1, 2, 3, 4, 5]))"
proof -
  have op: "open_on (with_source [127] 0 ''d/a'' [1, 2, 3, 4, 5])
      (app_fileHandle \<lparr>app_fileHandle = 0, app_metadata = empty_index\<rparr>) ''bin'' [127]"
    by (simp add: open_on_def with_source_def)
  have src: "files (with_source [127] 0 ''d/a'' [1, 2, 3, 4, 5]) ''d/a'' = Some [1, 2, 3, 4, 5]"
    by (simp add: with_source_def)
  have new: "Data (app_metadata \<lparr>app_fileHandle = 0, app_metadata = empty_index\<rparr>) ''d/a'' = None"
    by (simp add: empty_index_def)
  have other: "''d/a'' \<noteq> ''bin''" by simp
  from AppendFile_full_path [OF op src new other] op src new other show ?thesis by blast
qed

section \<open>ByteArray on a failing GetReader\<close>

text \<open>
  C5. \<open>ByteArray\<close> is to return an error value, and never crash, when \<open>GetReader\<close> fails.
  It does not: the deferred \<open>reader.Close()\<close> is registered before \<open>err\<close> is checked, and
  \<open>reader\<close> is nil whenever \<open>GetReader\<close> fails. On the container of the worked example,
  \<open>GetReader\<close> of the absent name \<open>c\<close> returns the not-found error and \<open>ByteArray\<close> of
  \<open>c\<close> panics.
\<close>

theorem ByteArray_absent_name_panics:
  "GetReader (example_codec example_index)
      \<lparr>ext_filename = ''bin'', ext_metadata = example_index\<rparr> ''c''
      (opened ''bin'' [127, 31, 139, 1, 2, 3, 4, 5, 31, 139, 123, 125, 10, 0, 0, 0, 0, 0, 0, 0] 20 True)
    = (Inl (CouldNotFindName ''c''),
       opened ''bin'' [127, 31, 139, 1, 2, 3, 4, 5, 31, 139, 123, 125, 10, 0, 0, 0, 0, 0, 0, 0] 20 True)
   \<and> ByteArray (example_codec example_index)
      \<lparr>ext_filename = ''bin'', ext_metadata = example_index\<rparr> ''c''
      (opened ''bin'' [127, 31, 139, 1, 2, 3, 4, 5, 31, 139, 123, 125, 10, 0, 0, 0, 0, 0, 0, 0] 20 True)
    = (Panicked,
       opened ''bin'' [127, 31, 139, 1, 2, 3, 4, 5, 31, 139, 123, 125, 10, 0, 0, 0, 0, 0, 0, 0] 20 True)"
  by (simp add: ByteArray_def GetReader_def deferred_Close_def example_index_def)

section \<open>Handles left open\<close>

text \<open>
  C6. Every opened file handle is to be released on every path. Two error paths keep
  one open. \<open>AppendFile\<close> opens the source before the duplicate check and returns the
  already-added error without closing it: file object 1 is still open. \<open>GetReader\<close>
  returns the gzip error of a corrupt block without closing the handle it opened: the
  file system had no open handle before the call and has one after it.
\<close>

theorem handle_leaks:
  "AppendFile (example_codec example_index) ''a''
      \<lparr>app_fileHandle = 0, app_metadata = example_index\<rparr>
      (with_source [127, 31, 139, 1, 2, 3, 4, 5, 31, 139] 10 ''a'' [1, 2, 3, 4, 5])
    = (Some (AlreadyAdded ''a''),
       \<lparr>app_fileHandle = 0, app_metadata = example_index\<rparr>,
       \<lparr>files = [''bin'' \<mapsto> [127, 31, 139, 1, 2, 3, 4, 5, 31, 139],
                 ''a'' \<mapsto> [1, 2, 3, 4, 5]],
        objs = [\<lparr>f_path = ''bin'', f_off = 10, f_closed = False\<rparr>,
                \<lparr>f_path = ''a'', f_off = 0, f_closed = False\<rparr>]\<rparr>)
   \<and> open_handles (with_source [127, 31, 139, 1, 2, 3, 4, 5, 31, 139] 10 ''a'' [1, 2, 3, 4, 5])
      = [0]
   \<and> open_handles
       \<lparr>files = [''bin'' \<mapsto> [127, 31, 139, 1, 2, 3, 4, 5, 31, 139],
                 ''a'' \<mapsto> [1, 2, 3, 4, 5]],
        objs = [\<lparr>f_path = ''bin'', f_off = 10, f_closed = False\<rparr>,
                \<lparr>f_path = ''a'', f_off = 0, f_closed = False\<rparr>]\<rparr>
      = [0, 1]
   \<and> GetReader (example_codec example_index)
      \<lparr>ext_filename = ''bin'', ext_metadata = example_index\<rparr> ''a''
      (one_file ''bin'' [127, 0, 0, 0, 0, 0, 0, 0, 0])
    = (Inl (Wrap GzipError ''creating gzip reader''),
       opened ''bin'' [127, 0, 0, 0, 0, 0, 0, 0, 0] 1 False)
   \<and> open_handles (one_file ''bin'' [127, 0, 0, 0, 0, 0, 0, 0, 0]) = []
   \<and> open_handles (opened ''bin'' [127, 0, 0, 0, 0, 0, 0, 0, 0] 1 False) = [0]"
  by (simp add: AppendFile_def os_Open_def example_index_def GetReader_def Seek_def live_def
      gzip_NewReader_def limited_def example_codec_def one_file_def opened_def with_source_def
      open_handles_def)

section \<open>Version gate\<close>

text \<open>
  C7. For every container (a file of at least 8 bytes whose last 8 bytes point at a
  position from which the index decodes) whose decoded index carries a \<open>Version\<close> other
  than \<open>METADATA_VERSION\<close>, \<open>MakeAppendExtractor\<close> fails with the version-mismatch error,
  whatever the block data; the handle it opened is closed again.
\<close>

theorem version_gate:
  assumes fl: "files w filename = Some bs"
    and len: "8 \<le> length bs"
    and ptr: "metadataPtr = sint (Uint64 (drop (length bs - 8) bs))"
    and pos: "0 \<le> metadataPtr"
    and dec: "json_Decode c (drop (nat metadataPtr) bs) = Some md"
    and ver: "Version md \<noteq> METADATA_VERSION"
  shows "\<exists>w'. MakeAppendExtractor c filename w =
            (Inl (VersionMismatch METADATA_VERSION (Version md) filename), w')
          \<and> files w' = files w \<and> open_handles w' = open_handles w"
proof -
  have t: "take 8 (drop (length bs - 8) bs) = drop (length bs - 8) bs" using len by simp
  have n: "nat (int (length bs) - 8) = length bs - 8" using len by simp
  show ?thesis
    using fl len pos dec ver
    by (auto simp add: MakeAppendExtractor_def os_Open_def Seek_def live_def Read_def Let_def n t
        ptr [symmetric] json_Decoder_Decode_def close_and_fail_def os_Close_def open_handles_def
        filter_open_snoc)
qed

theorem version_gate_witness:
  "files (one_file ''bin'' [123, 125, 0, 0, 0, 0, 0, 0, 0, 0]) ''bin''
      = Some [123, 125, 0, 0, 0, 0, 0, 0, 0, 0]
   \<and> (0 :: int) = sint (Uint64 (drop (length [123 :: byte, 125, 0, 0, 0, 0, 0, 0, 0, 0] - 8)
         [123, 125, 0, 0, 0, 0, 0, 0, 0, 0]))
   \<and> json_Decode (example_codec other_version) (drop (nat 0) [123, 125, 0, 0, 0, 0, 0, 0, 0, 0])
      = Some other_version
   \<and> Version other_version \<noteq> METADATA_VERSION
   \<and> (\<exists>w'. MakeAppendExtractor (example_codec other_version) ''bin''
              (one_file ''bin'' [123, 125, 0, 0, 0, 0, 0, 0, 0, 0]) =
            (Inl (VersionMismatch METADATA_VERSION (Version other_version) ''bin''), w')
          \<and> files w' = files (one_file ''bin'' [123, 125, 0, 0, 0, 0, 0, 0, 0, 0])
          \<and> open_handles w' = open_handles (one_file ''bin'' [123, 125, 0, 0, 0, 0, 0, 0, 0, 0]))"
proof -
  have fl: "files (one_file ''bin'' [123, 125, 0, 0, 0, 0, 0, 0, 0, 0]) ''bin''
      = Some [123, 125, 0, 0, 0, 0, 0, 0, 0, 0]"
    by (simp add: one_file_def)
  have len: "8 \<le> length [123 :: byte, 125, 0, 0, 0, 0, 0, 0, 0, 0]" by simp
  have ptr: "(0 :: int) = sint (Uint64 (drop (length [123 :: byte, 125, 0, 0, 0, 0, 0, 0, 0, 0] - 8)
         [123, 125, 0, 0, 0, 0, 0, 0, 0, 0]))"
    by (simp add: Uint64_def)
  have pos: "(0 :: int) \<le> 0" by simp
  have dec: "json_Decode (example_codec other_version)
      (drop (nat 0) [123, 125, 0, 0, 0, 0, 0, 0, 0, 0]) = Some other_version"
    by (simp add: example_codec_def)
  have ver: "Version other_version \<noteq> METADATA_VERSION"
    by (simp add: other_version_def METADATA_VERSION_def)
  from version_gate [OF fl len ptr pos dec ver] fl ptr dec ver show ?thesis by blast
qed

section \<open>Absent names\<close>

text \<open>
  C8. For every name absent from the captured index, \<open>GetReader\<close> fails with the
  not-found error and leaves the file system exactly as it was: no file is opened, no
  offset moves, no byte changes.
\<close>

theorem GetReader_absent:
  assumes "Data (ext_metadata extractor) dataName = None"
  shows "GetReader c extractor dataName w = (Inl (CouldNotFindName dataName), w)"
  using assms by (simp add: GetReader_def)

theorem GetReader_absent_witness:
  "Data (ext_metadata \<lparr>ext_filename = ''f'', ext_metadata = empty_index\<rparr>) ''c'' = None
   \<and> GetReader (example_codec empty_index)
         \<lparr>ext_filename = ''f'', ext_metadata = empty_index\<rparr> ''c'' (one_file ''f'' [])
       = (Inl (CouldNotFindName ''c''), one_file ''f'' [])"
proof -
  have h: "Data (ext_metadata \<lparr>ext_filename = ''f'', ext_metadata = empty_index\<rparr>) ''c'' = None"
    by (simp add: empty_index_def)
  from GetReader_absent [OF h] h show ?thesis by blast
qed

section \<open>Append only\<close>

text \<open>
  C9. Whatever the appender, the source and the file system, one call of
  \<open>AppendStreamReader\<close>, any run of appends, and the final \<open>Close\<close> only extend files:
  every file keeps its old content as a prefix of the new one, so no byte that was there
  changes and no length decreases, also when a call fails.
\<close>

theorem append_only:
  assumes "AppendStreamReader c name source appender w = (r, a', w')"
    and "append_all c xs appender w = (r1, a1, w1)"
    and "BinAppender_Close c a1 w1 = (r2, w2)"
  shows "extends w w' \<and> extends w w1 \<and> extends w1 w2 \<and> extends w w2"
  using assms
  by (blast intro: AppendStreamReader_extends append_all_extends BinAppender_Close_extends
      extends_trans)

theorem append_only_witness:
  "extends (opened ''bin'' [127] 0 False) (opened ''bin'' [127, 31, 139, 1, 2, 3, 4, 5] 8 False)
   \<and> extends (opened ''bin'' [127] 0 False)
        (opened ''bin'' [127, 31, 139, 1, 2, 3, 4, 5, 31, 139] 10 False)
   \<and> extends (opened ''bin'' [127, 31, 139, 1, 2, 3, 4, 5, 31, 139] 10 False)
        (opened ''bin''
          [127, 31, 139, 1, 2, 3, 4, 5, 31, 139, 123, 125, 10, 0, 0, 0, 0, 0, 0, 0] 20 True)
   \<and> extends (opened ''bin'' [127] 0 False)
        (opened ''bin''
          [127, 31, 139, 1, 2, 3, 4, 5, 31, 139, 123, 125, 10, 0, 0, 0, 0, 0, 0, 0] 20 True)
   \<and> files (opened ''bin'' [127] 0 False) ''bin'' = Some [127]"
  using append_only [OF example_single example_append_all example_Close]
  by (simp add: opened_def)

section \<open>The same name twice\<close>



end
